theory Spec2Isabelle
  imports Main "HOL-Library.Char_ord" "HOL-Library.List_Lexorder" "HOL-Library.Monad_Syntax"
begin

section \<open>Errors\<close>

text \<open>
  A Go \<open>error\<close> is an interface value that may be \<open>nil\<close>: a possibly-nil error is an
  \<open>error option\<close> (\<open>None\<close> is \<open>nil\<close>). \<open>MultiError\<close> holds the slice it is built
  from, whose elements may themselves be \<open>nil\<close>. \<open>PathError\<close> is \<open>*os.PathError\<close> with
  its \<open>Err\<close> field; \<open>ParseError\<close> is what \<open>time.Parse\<close> returns; \<open>OAIError\<close> is the
  \<open>resp.Error\<close> value of a response, with its code; \<open>Errorf\<close> is an error made by
  \<open>fmt.Errorf\<close>; \<open>OtherError\<close> stands for any other error of the environment
  (transport, marshalling, file system).
\<close>

datatype errno = ENOENT | ENOTDIR | EEXIST | EACCES | EIO

datatype error =
    ErrAlreadySynced
  | ErrInvalidEarliestDate
  | ParseError string string
  | PathError string string errno
  | OAIError string
  | OtherError string
  | Errorf string
  | MultiError "error option list"

section \<open>Time values of the standard library\<close>

text \<open>
  A \<open>time.Time\<close> is modelled by its civil fields in one fixed location. Strings are byte
  strings, as in Go: \<open>length\<close> is \<open>len\<close>, \<open>take 10 s\<close> is \<open>s[:10]\<close>.
\<close>

record Time =
  Year :: int
  Month :: nat
  Day :: nat
  Hour :: nat
  Minute :: nat
  Second :: nat
  Nanosecond :: nat

definition Date :: "int \<Rightarrow> nat \<Rightarrow> nat \<Rightarrow> nat \<Rightarrow> nat \<Rightarrow> nat \<Rightarrow> nat \<Rightarrow> Time" where
  "Date y m d hh mm ss ns =
     \<lparr>Year = y, Month = m, Day = d, Hour = hh, Minute = mm, Second = ss, Nanosecond = ns\<rparr>"

definition zeroTime :: Time where
  "zeroTime = Date 1 1 1 0 0 0 0"

definition isLeap :: "int \<Rightarrow> bool" where
  "isLeap y = (y mod 4 = 0 \<and> (y mod 100 \<noteq> 0 \<or> y mod 400 = 0))"

definition daysIn :: "nat \<Rightarrow> int \<Rightarrow> nat" where
  "daysIn m y =
     (if m = 2 then (if isLeap y then 29 else 28)
      else if m = 4 \<or> m = 6 \<or> m = 9 \<or> m = 11 then 30 else 31)"

definition valid_date :: "Time \<Rightarrow> bool" where
  "valid_date t = (1 \<le> Month t \<and> Month t \<le> 12 \<and> 1 \<le> Day t \<and> Day t \<le> daysIn (Month t) (Year t))"

subsection \<open>Parsing\<close>

definition isDigit :: "char \<Rightarrow> bool" where
  "isDigit c = (48 \<le> (of_char c :: nat) \<and> (of_char c :: nat) \<le> 57)"

definition isDigitAt :: "string \<Rightarrow> nat \<Rightarrow> bool" where
  "isDigitAt s i = (i < length s \<and> isDigit (s ! i))"

definition digitVal :: "char \<Rightarrow> nat" where
  "digitVal c = of_char c - 48"

definition digitsVal :: "string \<Rightarrow> nat" where
  "digitsVal s = foldl (\<lambda>a c. 10 * a + digitVal c) 0 s"

text \<open>The \<open>stdLongYear\<close> chunk of \<open>time.Parse\<close>: exactly four digits.\<close>

definition getLongYear :: "string \<Rightarrow> (nat \<times> string) option" where
  "getLongYear v =
     (if length v < 4 \<or> \<not> isDigitAt v 0 then None
      else if list_all isDigit (take 4 v) then Some (digitsVal (take 4 v), drop 4 v)
      else None)"

text \<open>\<open>getnum\<close> of package time: two digits, or one when not \<open>fixed\<close>.\<close>

definition getnum :: "string \<Rightarrow> bool \<Rightarrow> (nat \<times> string) option" where
  "getnum s fixed =
     (if \<not> isDigitAt s 0 then None
      else if \<not> isDigitAt s 1 then (if fixed then None else Some (digitVal (s ! 0), drop 1 s))
      else Some (digitVal (s ! 0) * 10 + digitVal (s ! 1), drop 2 s))"

text \<open>\<open>skip\<close> of package time, for a literal prefix without blanks.\<close>

definition skip :: "string \<Rightarrow> string \<Rightarrow> string option" where
  "skip v p = (if take (length p) v = p then Some (drop (length p) v) else None)"

text \<open>
  A fractional second in the value where the layout has none: a period or comma followed
  by at least one digit; at most nine digits are read as nanoseconds.
\<close>

definition commaOrPeriod :: "char \<Rightarrow> bool" where
  "commaOrPeriod c = (c = CHR ''.'' \<or> c = CHR '','')"

definition getFraction :: "string \<Rightarrow> nat \<times> string" where
  "getFraction v =
     (if 2 \<le> length v \<and> commaOrPeriod (v ! 0) \<and> isDigitAt v 1
      then (let ds = takeWhile isDigit (drop 1 v);
                ds9 = take 9 ds
            in (digitsVal ds9 * 10 ^ (9 - length ds9), drop (1 + length ds) v))
      else (0, v))"

text \<open>
  The chunks of the two layouts, in the order \<open>time.Parse\<close> reads them. A month
  outside 1..12 is refused where it is read; the day is checked against the month's
  length only at the end, after the whole value has been consumed.
\<close>

definition parse_ymd :: "string \<Rightarrow> ((nat \<times> nat \<times> nat) \<times> string) option" where
  "parse_ymd v =
     do {
       (y, v1) \<leftarrow> getLongYear v;
       v2 \<leftarrow> skip v1 ''-'';
       (m, v3) \<leftarrow> getnum v2 True;
       if m \<le> 0 \<or> 12 < m then None
       else do {
         v4 \<leftarrow> skip v3 ''-'';
         (d, v5) \<leftarrow> getnum v4 True;
         Some ((y, m, d), v5)
       }
     }"

definition parse_hm :: "string \<Rightarrow> ((nat \<times> nat) \<times> string) option" where
  "parse_hm v =
     do {
       v1 \<leftarrow> skip v ''T'';
       (hh, v2) \<leftarrow> getnum v1 False;
       if 24 \<le> hh then None
       else do {
         v3 \<leftarrow> skip v2 '':'';
         (mm, v4) \<leftarrow> getnum v3 True;
         if 60 \<le> mm then None else Some ((hh, mm), v4)
       }
     }"

definition parse_sec :: "string \<Rightarrow> ((nat \<times> nat) \<times> string) option" where
  "parse_sec v =
     do {
       v1 \<leftarrow> skip v '':'';
       (ss, v2) \<leftarrow> getnum v1 True;
       if 60 \<le> ss then None
       else (let (ns, v3) = getFraction v2 in Some ((ss, ns), v3))
     }"

text \<open>\<open>time.Parse("2006-01-02", v)\<close>.\<close>

definition parse_day :: "string \<Rightarrow> Time option" where
  "parse_day v =
     do {
       ((y, m, d), v1) \<leftarrow> parse_ymd v;
       if v1 \<noteq> [] then None
       else if d < 1 \<or> daysIn m (int y) < d then None
       else Some (Date (int y) m d 0 0 0 0)
     }"

text \<open>\<open>time.Parse("2006-01-02T15:04:05Z", v)\<close>.\<close>

definition parse_full :: "string \<Rightarrow> Time option" where
  "parse_full v =
     do {
       ((y, m, d), v1) \<leftarrow> parse_ymd v;
       ((hh, mm), v2) \<leftarrow> parse_hm v1;
       ((ss, ns), v3) \<leftarrow> parse_sec v2;
       v4 \<leftarrow> skip v3 ''Z'';
       if v4 \<noteq> [] then None
       else if d < 1 \<or> daysIn m (int y) < d then None
       else Some (Date (int y) m d hh mm ss ns)
     }"

text \<open>
  \<open>time.Parse\<close> on the two layouts the harvester passes to it. A failure is a
  \<open>ParseError\<close> carrying layout and value.
\<close>

definition time_Parse :: "string \<Rightarrow> string \<Rightarrow> error + Time" where
  "time_Parse layout v =
     (case (if layout = ''2006-01-02'' then parse_day v
            else if layout = ''2006-01-02T15:04:05Z'' then parse_full v
            else None)
      of None \<Rightarrow> Inl (ParseError layout v) | Some t \<Rightarrow> Inr t)"

subsection \<open>Formatting\<close>

definition digitChar :: "nat \<Rightarrow> char" where
  "digitChar n = char_of (48 + n)"

fun dec :: "nat \<Rightarrow> string" where
  "dec n = (if n < 10 then [digitChar n] else dec (n div 10) @ [digitChar (n mod 10)])"

declare dec.simps [simp del]

text \<open>\<open>appendInt\<close> of package time: the decimal form, zero-padded to \<open>width\<close> digits.\<close>

definition appendInt :: "int \<Rightarrow> nat \<Rightarrow> string" where
  "appendInt x width =
     (let u = (if x < 0 then nat (- x) else nat x);
          ds = dec u;
          padded = replicate (width - length ds) CHR ''0'' @ ds
      in if x < 0 then CHR ''-'' # padded else padded)"

definition format_day :: "Time \<Rightarrow> string" where
  "format_day t =
     appendInt (Year t) 4 @ ''-'' @ appendInt (int (Month t)) 2 @ ''-'' @ appendInt (int (Day t)) 2"

definition format_full :: "Time \<Rightarrow> string" where
  "format_full t =
     format_day t @ ''T'' @ appendInt (int (Hour t)) 2 @ '':'' @ appendInt (int (Minute t)) 2
       @ '':'' @ appendInt (int (Second t)) 2 @ ''Z''"

text \<open>
  \<open>t.Format(layout)\<close> on the layouts the harvester passes to it: the day layout, the
  full layout, and the empty layout, which formats every time as the empty string.
\<close>

definition time_Format :: "Time \<Rightarrow> string \<Rightarrow> string" where
  "time_Format t layout =
     (if layout = ''2006-01-02'' then format_day t
      else if layout = ''2006-01-02T15:04:05Z'' then format_full t
      else [])"

subsection \<open>Calendar arithmetic\<close>

definition next_day :: "Time \<Rightarrow> Time" where
  "next_day t =
     (if Day t < daysIn (Month t) (Year t) then t\<lparr>Day := Day t + 1\<rparr>
      else if Month t < 12 then t\<lparr>Month := Month t + 1, Day := 1\<rparr>
      else t\<lparr>Year := Year t + 1, Month := 1, Day := 1\<rparr>)"

definition prev_day :: "Time \<Rightarrow> Time" where
  "prev_day t =
     (if 1 < Day t then t\<lparr>Day := Day t - 1\<rparr>
      else if 1 < Month t then t\<lparr>Month := Month t - 1, Day := daysIn (Month t - 1) (Year t)\<rparr>
      else t\<lparr>Year := Year t - 1, Month := 12, Day := 31\<rparr>)"

text \<open>
  \<open>t.AddDate(0, 0, days)\<close> on a valid civil date: \<open>days\<close> steps forward, or \<open>- days\<close>
  steps backward; the clock fields are kept.
\<close>

definition AddDate_days :: "Time \<Rightarrow> int \<Rightarrow> Time" where
  "AddDate_days t days =
     (if 0 \<le> days then (next_day ^^ nat days) t else (prev_day ^^ nat (- days)) t)"

text \<open>\<open>now.New(t).EndOfDay()\<close> of package now.\<close>

definition EndOfDay :: "Time \<Rightarrow> Time" where
  "EndOfDay t = Date (Year t) (Month t) (Day t) 23 59 59 999999999"

section \<open>The harvest and its Identify record\<close>

record Identify =
  Granularity :: string
  EarliestDatestamp :: string

record Harvest =
  BaseURL :: string
  Format :: string
  Set :: string
  From :: string
  Until :: string
  MaxRequests :: int
  DisableSelectiveHarvesting :: bool
  CleanBeforeDecode :: bool
  IgnoreHTTPErrors :: bool
  MaxEmptyResponses :: int
  SuppressFormatParameter :: bool
  DailyInterval :: bool
  Identify :: Identify
  Started :: Time

record Interval =
  Begin :: Time
  End :: Time

definition DateLayout :: "Harvest \<Rightarrow> string" where
  "DateLayout h =
     (if Granularity (Identify h) = ''YYYY-MM-DD'' then ''2006-01-02''
      else if Granularity (Identify h) = ''YYYY-MM-DDThh:mm:ssZ'' then ''2006-01-02T15:04:05Z''
      else [])"

definition earliestDate :: "Harvest \<Rightarrow> error + Time" where
  "earliestDate h =
     (if Granularity (Identify h) = ''YYYY-MM-DD'' then
        (if length (EarliestDatestamp (Identify h)) \<le> 10
         then time_Parse ''2006-01-02'' (EarliestDatestamp (Identify h))
         else time_Parse ''2006-01-02'' (take 10 (EarliestDatestamp (Identify h))))
      else if Granularity (Identify h) = ''YYYY-MM-DDThh:mm:ssZ'' then
        (if 10 \<le> length (EarliestDatestamp (Identify h)) \<and> length (EarliestDatestamp (Identify h)) < 20
         then time_Parse ''2006-01-02'' (take 10 (EarliestDatestamp (Identify h)))
         else time_Parse ''2006-01-02T15:04:05Z'' (EarliestDatestamp (Identify h)))
      else Inl ErrInvalidEarliestDate)"

section \<open>The cache directory\<close>

text \<open>
  \<open>base64.RawURLEncoding.EncodeToString\<close>: three bytes give four characters of the
  URL-safe alphabet; a remainder of one or two bytes gives two or three characters, and
  no padding is added.
\<close>

fun sextets :: "nat list \<Rightarrow> nat list" where
  "sextets (a # b # c # r) =
     [a div 4, (a mod 4) * 16 + b div 16, (b mod 16) * 4 + c div 64, c mod 64] @ sextets r"
| "sextets [a, b] = [a div 4, (a mod 4) * 16 + b div 16, (b mod 16) * 4]"
| "sextets [a] = [a div 4, (a mod 4) * 16]"
| "sextets [] = []"

definition encodeURL :: string where
  "encodeURL = ''ABCDEFGHIJKLMNOPQRSTUVWXYZabcdefghijklmnopqrstuvwxyz0123456789-_''"

definition EncodeToString :: "string \<Rightarrow> string" where
  "EncodeToString data = map (\<lambda>k. encodeURL ! k) (sextets (map of_char data))"

text \<open>
  \<open>filepath.Join\<close> of two elements, for elements that are already clean: an empty
  element is ignored, the others are joined by the separator.
\<close>

definition filepath_Join :: "string \<Rightarrow> string \<Rightarrow> string" where
  "filepath_Join a b = (if a = [] then b else if b = [] then a else a @ ''/'' @ b)"

text \<open>
  The environment of a run: the package variable \<open>BaseDir\<close>, the process umask, the
  random source behind \<open>rand.Intn\<close>, the failures of the file system and of
  \<open>xml.Marshal\<close> (\<open>None\<close>: the operation succeeds), and the two interval splitters of
  type \<open>Interval\<close>, which are defined outside the harvesting file and are taken as they
  are.
\<close>

record Response =
  ErrorCode :: string
  ResumptionToken :: string
  Records :: "string list"

record Env =
  BaseDir :: string
  umask :: nat
  randSource :: "nat \<Rightarrow> nat"
  writeErr :: "string \<Rightarrow> error option"
  moveErr :: "string \<Rightarrow> error option"
  removeErr :: "string \<Rightarrow> error option"
  marshalErr :: "Response \<Rightarrow> error option"
  DailyIntervals :: "Interval \<Rightarrow> Interval list"
  MonthlyIntervals :: "Interval \<Rightarrow> Interval list"

definition Dir :: "Env \<Rightarrow> Harvest \<Rightarrow> string" where
  "Dir env h = filepath_Join (BaseDir env) (EncodeToString (Set h @ ''#'' @ Format h @ ''#'' @ BaseURL h))"

subsection \<open>Directories\<close>

text \<open>
  For \<open>MkdirAll\<close> the file system is a tree: a path is its list of components, and a
  node is a directory with its permission bits or a file. \<open>os.Stat\<close> fails with
  \<open>ENOTDIR\<close> below a file and with \<open>ENOENT\<close> on a missing path. \<open>os.Mkdir\<close> creates one
  directory with the permission bits left by the umask.
\<close>

datatype node = DirNode nat | FileNode

type_synonym fstree = "string list \<Rightarrow> node option"

fun split_acc :: "string \<Rightarrow> string \<Rightarrow> string list" where
  "split_acc cur [] = (if cur = [] then [] else [cur])"
| "split_acc cur (c # cs) =
     (if c = CHR ''/'' then (if cur = [] then split_acc [] cs else cur # split_acc [] cs)
      else split_acc (cur @ [c]) cs)"

definition split_path :: "string \<Rightarrow> string list" where
  "split_path p = split_acc [] p"

definition below_file :: "fstree \<Rightarrow> string list \<Rightarrow> bool" where
  "below_file fs p = list_ex (\<lambda>k. fs (take k p) = Some FileNode) [0..<length p]"

definition os_Stat :: "fstree \<Rightarrow> string list \<Rightarrow> errno + node" where
  "os_Stat fs p =
     (if below_file fs p then Inl ENOTDIR
      else case fs p of None \<Rightarrow> Inl ENOENT | Some n \<Rightarrow> Inr n)"

definition IsNotExist :: "errno \<Rightarrow> bool" where
  "IsNotExist e = (e = ENOENT)"

definition os_Mkdir :: "nat \<Rightarrow> fstree \<Rightarrow> string list \<Rightarrow> nat \<Rightarrow> errno + fstree" where
  "os_Mkdir um fs p perm =
     (if fs p \<noteq> None then Inl EEXIST
      else if p = [] then Inl ENOENT
      else case fs (butlast p) of
             None \<Rightarrow> Inl ENOENT
           | Some FileNode \<Rightarrow> Inl ENOTDIR
           | Some (DirNode m) \<Rightarrow> Inr (fs(p \<mapsto> DirNode (perm - and perm um))))"

text \<open>
  \<open>os.MkdirAll\<close>, on the path in reverse (innermost component first): an existing
  directory is success, an existing file is \<open>ENOTDIR\<close>; otherwise the parent is created
  first, then the directory itself.
\<close>

fun mkdirAll_rev :: "nat \<Rightarrow> fstree \<Rightarrow> string list \<Rightarrow> nat \<Rightarrow> errno + fstree" where
  "mkdirAll_rev um fs [] perm =
     (case os_Stat fs [] of
        Inr (DirNode m) \<Rightarrow> Inr fs
      | Inr FileNode \<Rightarrow> Inl ENOTDIR
      | Inl e \<Rightarrow> os_Mkdir um fs [] perm)"
| "mkdirAll_rev um fs (c # rparent) perm =
     (case os_Stat fs (rev (c # rparent)) of
        Inr (DirNode m) \<Rightarrow> Inr fs
      | Inr FileNode \<Rightarrow> Inl ENOTDIR
      | Inl e \<Rightarrow>
          (case mkdirAll_rev um fs rparent perm of
             Inl e' \<Rightarrow> Inl e'
           | Inr fs1 \<Rightarrow> os_Mkdir um fs1 (rev (c # rparent)) perm))"

definition os_MkdirAll :: "nat \<Rightarrow> fstree \<Rightarrow> string list \<Rightarrow> nat \<Rightarrow> errno + fstree" where
  "os_MkdirAll um fs p perm = mkdirAll_rev um fs (rev p) perm"

text \<open>\<open>h.MkdirAll()\<close>; the literal \<open>0755\<close> is octal, 493.\<close>

definition MkdirAll :: "Env \<Rightarrow> Harvest \<Rightarrow> fstree \<Rightarrow> error option \<times> fstree" where
  "MkdirAll env h fs =
     (case os_Stat fs (split_path (Dir env h)) of
        Inl e \<Rightarrow>
          (if IsNotExist e then
             (case os_MkdirAll (umask env) fs (split_path (Dir env h)) 493 of
                Inl e' \<Rightarrow> (Some (PathError ''mkdir'' (Dir env h) e'), fs)
              | Inr fs' \<Rightarrow> (None, fs'))
           else (None, fs))
      | Inr n \<Rightarrow> (None, fs))"

subsection \<open>Files of the cache directory\<close>

text \<open>
  The regular files that exist are a list of paths without duplicates; the requests
  passed to the transport are logged; \<open>randCalls\<close> counts the draws from the random
  source. File contents are not modelled.
\<close>

record Request =
  reqBaseURL :: string
  reqMetadataPrefix :: string
  reqVerb :: string
  reqSet :: string
  reqResumptionToken :: string
  reqCleanBeforeDecode :: bool
  reqSuppressFormatParameter :: bool
  reqFrom :: string
  reqUntil :: string

record World =
  files :: "string list"
  requests :: "Request list"
  randCalls :: nat

definition hasSuffix :: "string \<Rightarrow> string \<Rightarrow> bool" where
  "hasSuffix s suf = (length suf \<le> length s \<and> drop (length s - length suf) s = suf)"

fun contains :: "string \<Rightarrow> string \<Rightarrow> bool" where
  "contains [] sub = (sub = [])"
| "contains (c # cs) sub = (take (length sub) (c # cs) = sub \<or> contains cs sub)"

text \<open>The name of a path directly inside \<open>dir\<close>, if it is one.\<close>

definition baseIn :: "string \<Rightarrow> string \<Rightarrow> string option" where
  "baseIn dir p =
     (let pre = dir @ ''/''; n = drop (length pre) p
      in if take (length pre) p = pre \<and> n \<noteq> [] \<and> CHR ''/'' \<notin> set n then Some n else None)"

definition Readdirnames :: "string \<Rightarrow> World \<Rightarrow> string list" where
  "Readdirnames dir w = sort (List.map_filter (baseIn dir) (files w))"

text \<open>
  Modelled from the spec: \<open>MustGlob\<close> is not part of the harvesting file. It lists, in
  lexical order, the paths of the directory's entries whose name matches the pattern;
  the three patterns in use are given by the predicate on names they denote.
\<close>

definition MustGlob :: "string \<Rightarrow> (string \<Rightarrow> bool) \<Rightarrow> World \<Rightarrow> string list" where
  "MustGlob dir matches w = map (filepath_Join dir) (filter matches (Readdirnames dir w))"

definition Files :: "Env \<Rightarrow> Harvest \<Rightarrow> World \<Rightarrow> string list" where
  "Files env h w = MustGlob (Dir env h) (\<lambda>n. hasSuffix n ''.xml.gz'') w"

definition temporaryFiles :: "Env \<Rightarrow> Harvest \<Rightarrow> World \<Rightarrow> string list" where
  "temporaryFiles env h w = MustGlob (Dir env h) (\<lambda>n. contains n ''.xml-tmp'') w"

definition temporaryFilesSuffix :: "Env \<Rightarrow> Harvest \<Rightarrow> string \<Rightarrow> World \<Rightarrow> string list" where
  "temporaryFilesSuffix env h suffix w = MustGlob (Dir env h) (\<lambda>n. hasSuffix n (''.xml'' @ suffix)) w"

definition isENOENT :: "error option \<Rightarrow> bool" where
  "isENOENT err = (case err of Some (PathError op' path e) \<Rightarrow> e = ENOENT | _ \<Rightarrow> False)"

definition os_Remove :: "Env \<Rightarrow> string \<Rightarrow> World \<Rightarrow> error option \<times> World" where
  "os_Remove env p w =
     (if p \<notin> set (files w) then (Some (PathError ''remove'' p ENOENT), w)
      else case removeErr env p of
             Some e \<Rightarrow> (Some e, w)
           | None \<Rightarrow> (None, w\<lparr>files := removeAll p (files w)\<rparr>))"

definition ioutil_WriteFile :: "Env \<Rightarrow> string \<Rightarrow> World \<Rightarrow> error option \<times> World" where
  "ioutil_WriteFile env p w =
     (case writeErr env p of
        Some e \<Rightarrow> (Some e, w)
      | None \<Rightarrow> (None, w\<lparr>files := (if p \<in> set (files w) then files w else files w @ [p])\<rparr>))"

text \<open>
  Modelled from the spec: \<open>MoveAndCompress\<close> is not part of the harvesting file. It is
  the rename-and-compress step of promotion: on success the temporary file is gone and
  the permanent file exists; on failure nothing has changed.
\<close>

definition MoveAndCompress :: "Env \<Rightarrow> string \<Rightarrow> string \<Rightarrow> World \<Rightarrow> error option \<times> World" where
  "MoveAndCompress env src dst w =
     (case moveErr env src of
        Some e \<Rightarrow> (Some e, w)
      | None \<Rightarrow>
          (if src \<notin> set (files w) then (Some (PathError ''open'' src ENOENT), w)
           else (None, w\<lparr>files := (let fs = removeAll src (files w)
                                   in if dst \<in> set fs then fs else fs @ [dst])\<rparr>)))"

fun cleanup_loop :: "Env \<Rightarrow> string list \<Rightarrow> World \<Rightarrow> error option \<times> World" where
  "cleanup_loop env [] w = (None, w)"
| "cleanup_loop env (filename # rest) w =
     (case os_Remove env filename w of
        (None, w1) \<Rightarrow> cleanup_loop env rest w1
      | (Some err, w1) \<Rightarrow>
          (if isENOENT (Some err) then cleanup_loop env rest w1 else (Some err, w1)))"

definition cleanupTemporaryFiles :: "Env \<Rightarrow> Harvest \<Rightarrow> World \<Rightarrow> error option \<times> World" where
  "cleanupTemporaryFiles env h w = cleanup_loop env (temporaryFiles env h w) w"

section \<open>The interval planner\<close>

text \<open>
  \<open>fnPattern\<close> is the regular expression
  \<^verbatim>\<open>(?P<Date>[0-9]{4,4}-[0-9]{2,2}-[0-9]{2,2})-[0-9]{8,}.xml(.gz)?$\<close>.
  It is anchored at the end only, and its dots match any character but a newline. A
  match starting at some position is therefore: a date shape, a hyphen, at least eight
  digits, one more character, \<open>xml\<close>, and then either the end of the name or one
  character followed by \<open>gz\<close>. Names are taken to be ASCII, so that a character is
  a byte.
\<close>

definition dateShape :: "string \<Rightarrow> bool" where
  "dateShape s =
     (length s = 10 \<and> list_all isDigit (take 4 s) \<and> s ! 4 = CHR ''-''
      \<and> list_all isDigit (take 2 (drop 5 s)) \<and> s ! 7 = CHR ''-''
      \<and> list_all isDigit (drop 8 s))"

definition notNewline :: "char \<Rightarrow> bool" where
  "notNewline c = (c \<noteq> CHR 0x0A)"

definition serialBody :: "string \<Rightarrow> bool" where
  "serialBody b = (9 \<le> length b \<and> list_all isDigit (butlast b) \<and> notNewline (last b))"

definition serialTail :: "string \<Rightarrow> bool" where
  "serialTail r =
     (if hasSuffix r ''xml'' then serialBody (take (length r - 3) r)
      else if 6 \<le> length r \<and> hasSuffix r ''gz'' \<and> notNewline (r ! (length r - 3))
              \<and> hasSuffix (take (length r - 3) r) ''xml''
           then serialBody (take (length r - 6) r)
      else False)"

definition matchHere :: "string \<Rightarrow> bool" where
  "matchHere s = (11 \<le> length s \<and> dateShape (take 10 s) \<and> s ! 10 = CHR ''-'' \<and> serialTail (drop 11 s))"

text \<open>
  \<open>fnPattern.FindStringSubmatch\<close>: the leftmost match, as the list of the whole match
  and its two groups; the empty list when nothing matches.
\<close>

fun FindStringSubmatch :: "string \<Rightarrow> string list" where
  "FindStringSubmatch [] = []"
| "FindStringSubmatch (c # cs) =
     (if matchHere (c # cs)
      then [c # cs, take 10 (c # cs),
            (if hasSuffix (c # cs) ''xml'' then [] else drop (length (c # cs) - 3) (c # cs))]
      else FindStringSubmatch cs)"

definition ExtractorFunc :: "string \<Rightarrow> string" where
  "ExtractorFunc name =
     (let groups = FindStringSubmatch name
      in if 1 < length groups then groups ! 1 else [])"

text \<open>
  Modelled from the spec: \<open>DirLaster\<close> and its method \<open>Last\<close> are not part of the
  harvesting file. The scan extracts the date of every entry of the directory that has
  one and takes the lexicographic maximum; when no entry has a date, the last known
  date is the default value.
\<close>

record DirLaster =
  LasterDir :: string
  DefaultValue :: string
  Extractor :: "string \<Rightarrow> string"

fun maximum :: "string \<Rightarrow> string list \<Rightarrow> string" where
  "maximum m [] = m"
| "maximum m (x # xs) = maximum (max m x) xs"

definition cachedDates :: "DirLaster \<Rightarrow> World \<Rightarrow> string list" where
  "cachedDates l w = filter (\<lambda>v. v \<noteq> []) (map (Extractor l) (Readdirnames (LasterDir l) w))"

definition Last :: "DirLaster \<Rightarrow> World \<Rightarrow> error + string" where
  "Last l w =
     (case cachedDates l w of
        [] \<Rightarrow> Inr (DefaultValue l)
      | v # vs \<Rightarrow> Inr (maximum v vs))"

definition defaultStart :: "Harvest \<Rightarrow> error + Time" where
  "defaultStart h =
     (if From h = [] then earliestDate h else time_Parse ''2006-01-02'' (From h))"

definition planEnd :: "Harvest \<Rightarrow> Time" where
  "planEnd h = EndOfDay (AddDate_days (Started h) (- 1))"

definition defaultInterval :: "Env \<Rightarrow> Harvest \<Rightarrow> World \<Rightarrow> error + Interval" where
  "defaultInterval env h w =
     (case defaultStart h of
        Inl err \<Rightarrow> Inl err
      | Inr earliest \<Rightarrow>
          (let laster = \<lparr>LasterDir = Dir env h,
                         DefaultValue = time_Format earliest ''2006-01-02'',
                         Extractor = ExtractorFunc\<rparr>
           in case Last laster w of
                Inl err \<Rightarrow> Inl err
              | Inr last' \<Rightarrow>
                  (case time_Parse ''2006-01-02'' last' of
                     Inl err \<Rightarrow> Inl err
                   | Inr begin \<Rightarrow>
                       (let begin1 = (if last' \<noteq> DefaultValue laster
                                      then AddDate_days begin 1 else begin);
                            end' = planEnd h
                        in if last' = time_Format end' ''2006-01-02''
                           then Inl ErrAlreadySynced
                           else Inr \<lparr>Begin = begin1, End = end'\<rparr>))))"

section \<open>Promotion of a batch\<close>

text \<open>
  \<open>strings.Replace(s, old, "", -1)\<close> for a non-empty \<open>old\<close>: every occurrence, from
  the left and without overlap, is removed.
\<close>

fun removeOccurrences :: "nat \<Rightarrow> string \<Rightarrow> string \<Rightarrow> string" where
  "removeOccurrences k old [] = []"
| "removeOccurrences k old (c # cs) =
     (if 0 < k then removeOccurrences (k - 1) old cs
      else if old \<noteq> [] \<and> take (length old) (c # cs) = old
           then removeOccurrences (length old - 1) old cs
      else c # removeOccurrences 0 old cs)"

definition strings_Replace :: "string \<Rightarrow> string \<Rightarrow> string" where
  "strings_Replace s old = removeOccurrences 0 old s"

text \<open>
  The rollback loop inside \<open>finalize\<close>, entered with the error \<open>err\<close> of the failed
  promotion. Its test reads \<open>if e := os.Remove(fn); err != nil\<close>: the removal's own
  result \<open>e\<close> is computed, and the condition and the type assertion that follow look at
  \<open>err\<close>.
\<close>

fun rollback :: "Env \<Rightarrow> string \<Rightarrow> error option \<Rightarrow> string list \<Rightarrow> World \<Rightarrow> error option \<times> World" where
  "rollback env dir err [] w = (err, w)"
| "rollback env dir err (fn # rest) w =
     (let (e, w1) = os_Remove env fn w
      in if err \<noteq> None then
           (if isENOENT err then rollback env dir err rest w1
            else (Some (MultiError [err, e,
                    Some (Errorf (''inconsistent cache state; start over and purge '' @ dir))]), w1))
         else rollback env dir err rest w1)"

fun promote :: "Env \<Rightarrow> Harvest \<Rightarrow> string \<Rightarrow> string list \<Rightarrow> string list \<Rightarrow> World \<Rightarrow> error option \<times> World" where
  "promote env h suffix [] renamed w = (None, w)"
| "promote env h suffix (filename # rest) renamed w =
     (let dst = strings_Replace filename suffix @ ''.gz'';
          (err, w1) = MoveAndCompress env filename dst w
      in if err \<noteq> None then rollback env (Dir env h) err renamed w1
         else promote env h suffix rest (renamed @ [dst]) w1)"

definition finalize :: "Env \<Rightarrow> Harvest \<Rightarrow> string \<Rightarrow> World \<Rightarrow> error option \<times> World" where
  "finalize env h suffix w = promote env h suffix (temporaryFilesSuffix env h suffix w) [] w"

section \<open>The pagination driver\<close>

text \<open>
  Modelled from the spec: the two token methods of the response are not part of the
  harvesting file. A response carries a resumption token when the token is not empty.
\<close>

definition GetResumptionToken :: "Response \<Rightarrow> string" where
  "GetResumptionToken resp = ResumptionToken resp"

definition HasResumptionToken :: "Response \<Rightarrow> bool" where
  "HasResumptionToken resp = (GetResumptionToken resp \<noteq> [])"

text \<open>\<open>fmt.Sprintf("%08d", i)\<close>: the sign counts towards the width.\<close>

definition zeroPad :: "nat \<Rightarrow> string \<Rightarrow> string" where
  "zeroPad width ds = replicate (width - length ds) CHR ''0'' @ ds"

definition Sprintf_08d :: "int \<Rightarrow> string" where
  "Sprintf_08d i = (if i < 0 then CHR ''-'' # zeroPad 7 (dec (nat (- i))) else zeroPad 8 (dec (nat i)))"

definition rand_Intn :: "Env \<Rightarrow> World \<Rightarrow> nat \<Rightarrow> nat" where
  "rand_Intn env w n = randSource env (randCalls w) mod n"

text \<open>
  One pass through the loop body after the request limit has been checked. The
  transport's answer \<open>r\<close> is what \<open>Do\<close> returns for the request. The pass either goes
  round again with new counters and token, or leaves the loop by \<open>break\<close>, or returns an
  error from \<open>runInterval\<close>. The sleep of the \<open>InternalException\<close> case has no effect on
  the state.
\<close>

datatype step =
    Continue int int string World
  | Break World
  | Return error World

definition makeRequest :: "Harvest \<Rightarrow> Interval \<Rightarrow> string \<Rightarrow> Request" where
  "makeRequest h iv token =
     (let req = \<lparr>reqBaseURL = BaseURL h, reqMetadataPrefix = Format h, reqVerb = ''ListRecords'',
                  reqSet = Set h, reqResumptionToken = token,
                  reqCleanBeforeDecode = CleanBeforeDecode h,
                  reqSuppressFormatParameter = SuppressFormatParameter h,
                  reqFrom = [], reqUntil = []\<rparr>
      in if DisableSelectiveHarvesting h then req
         else req\<lparr>reqFrom := time_Format (Begin iv) (DateLayout h),
                  reqUntil := time_Format (End iv) (DateLayout h)\<rparr>)"

definition filedate :: "Harvest \<Rightarrow> Interval \<Rightarrow> string" where
  "filedate h iv =
     (if DisableSelectiveHarvesting h then time_Format (Started h) ''2006-01-02''
      else time_Format (End iv) ''2006-01-02'')"

text \<open>The part of the body from the file name on: write, token test, counters.\<close>

definition savePage :: "Env \<Rightarrow> Harvest \<Rightarrow> Interval \<Rightarrow> string \<Rightarrow> Response \<Rightarrow> int \<Rightarrow> int \<Rightarrow> World \<Rightarrow> step" where
  "savePage env h iv suffix resp i empty' w =
     (let filename = filepath_Join (Dir env h)
            (filedate h iv @ ''-'' @ Sprintf_08d i @ ''.xml'' @ suffix)
      in case marshalErr env resp of
           Some err \<Rightarrow> Return err w
         | None \<Rightarrow>
             (case ioutil_WriteFile env filename w of
                (Some e, w1) \<Rightarrow> Return e w1
              | (None, w1) \<Rightarrow>
                  (let token = GetResumptionToken resp
                   in if token = [] then Break w1
                      else (let i1 = i + 1;
                                empty1 = (if 0 < length (Records resp) then 0 else empty' + 1)
                            in if empty1 = MaxEmptyResponses h then Break w1
                               else Continue i1 empty1 token w1))))"

text \<open>
  In the \<open>noRecordsMatch\<close> case the \<open>break\<close> stands inside the \<open>switch\<close> statement and
  leaves that statement only: with or without a resumption token, control reaches the
  write step.
\<close>

definition page :: "Env \<Rightarrow> Harvest \<Rightarrow> Interval \<Rightarrow> string \<Rightarrow> error + Response \<Rightarrow> int \<Rightarrow> int \<Rightarrow> string \<Rightarrow> World \<Rightarrow> step" where
  "page env h iv suffix r i empty' token w =
     (let w0 = w\<lparr>requests := requests w @ [makeRequest h iv token]\<rparr>
      in case r of
           Inl err \<Rightarrow> (if IgnoreHTTPErrors h then Break w0 else Return err w0)
         | Inr resp \<Rightarrow>
             (if ErrorCode resp \<noteq> [] then
                (if ErrorCode resp = ''noRecordsMatch'' then
                   (if \<not> HasResumptionToken resp then savePage env h iv suffix resp i empty' w0
                    else savePage env h iv suffix resp i empty' w0)
                 else if ErrorCode resp = ''InternalException'' then Continue (i + 1) empty' token w0
                 else Return (OAIError (ErrorCode resp)) w0)
              else savePage env h iv suffix resp i empty' w0))"

text \<open>
  The loop. The transport is a script: the answers \<open>Do\<close> will give, in order. A run
  that asks for more answers than the script holds is \<open>Starved\<close>: the driver is still
  waiting, and nothing is promoted.
\<close>

datatype loop_exit = Broke | Exited error | Starved

fun pages :: "Env \<Rightarrow> Harvest \<Rightarrow> Interval \<Rightarrow> string \<Rightarrow> (error + Response) list \<Rightarrow> int \<Rightarrow> int \<Rightarrow> string \<Rightarrow> World
    \<Rightarrow> loop_exit \<times> (error + Response) list \<times> World" where
  "pages env h iv suffix [] i empty' token w =
     (if MaxRequests h = i then (Broke, [], w) else (Starved, [], w))"
| "pages env h iv suffix (r # rest) i empty' token w =
     (if MaxRequests h = i then (Broke, r # rest, w)
      else case page env h iv suffix r i empty' token w of
             Continue i1 empty1 token1 w1 \<Rightarrow> pages env h iv suffix rest i1 empty1 token1 w1
           | Break w1 \<Rightarrow> (Broke, rest, w1)
           | Return err w1 \<Rightarrow> (Exited err, rest, w1))"

text \<open>
  The result of \<open>runInterval\<close> and of \<open>run\<close>: the returned error (\<open>None\<close> is \<open>nil\<close>),
  or \<open>Pending\<close> when the script ran out first.
\<close>

datatype result = Returned "error option" | Pending

definition runInterval :: "Env \<Rightarrow> Harvest \<Rightarrow> Interval \<Rightarrow> (error + Response) list \<Rightarrow> World
    \<Rightarrow> result \<times> (error + Response) list \<times> World" where
  "runInterval env h iv script w =
     (let suffix = ''-tmp-'' @ dec (rand_Intn env w 999999999);
          w0 = w\<lparr>randCalls := randCalls w + 1\<rparr>
      in case pages env h iv suffix script 0 0 [] w0 of
           (Exited err, rest, w1) \<Rightarrow> (Returned (Some err), rest, w1)
         | (Starved, rest, w1) \<Rightarrow> (Pending, rest, w1)
         | (Broke, rest, w1) \<Rightarrow>
             (case finalize env h suffix w1 of
                (Some err, w2) \<Rightarrow> (Returned (Some err), rest, w2)
              | (None, w2) \<Rightarrow> (Returned None, rest, w2)))"

section \<open>A run\<close>

definition zeroInterval :: Interval where
  "zeroInterval = \<lparr>Begin = zeroTime, End = zeroTime\<rparr>"

fun runIntervals :: "Env \<Rightarrow> Harvest \<Rightarrow> Interval list \<Rightarrow> (error + Response) list \<Rightarrow> World
    \<Rightarrow> result \<times> (error + Response) list \<times> World" where
  "runIntervals env h [] script w = (Returned None, script, w)"
| "runIntervals env h (iv # ivs) script w =
     (case runInterval env h iv script w of
        (Returned None, rest, w1) \<Rightarrow> runIntervals env h ivs rest w1
      | (Returned (Some err), rest, w1) \<Rightarrow> (Returned (Some err), rest, w1)
      | (Pending, rest, w1) \<Rightarrow> (Pending, rest, w1))"

text \<open>The body of \<open>run\<close>, up to its return statement.\<close>

definition run_body :: "Env \<Rightarrow> Harvest \<Rightarrow> (error + Response) list \<Rightarrow> World
    \<Rightarrow> result \<times> (error + Response) list \<times> World" where
  "run_body env h script w =
     (if DisableSelectiveHarvesting h then runInterval env h zeroInterval script w
      else case defaultInterval env h w of
             Inl err \<Rightarrow> (Returned (Some err), script, w)
           | Inr interval \<Rightarrow>
               (if DailyInterval h
                then runIntervals env h (DailyIntervals env interval) script w
                else runIntervals env h (MonthlyIntervals env interval) script w))"

text \<open>
  The deferred function of \<open>run\<close>, applied to the named result \<open>err\<close>: when the cleanup
  fails with \<open>e\<close>, the inner assignment builds the \<open>MultiError\<close>, and the assignment
  \<open>err = e\<close> after it is not in an \<open>else\<close> branch.
\<close>

definition run_deferred :: "Env \<Rightarrow> Harvest \<Rightarrow> error option \<Rightarrow> World \<Rightarrow> error option \<times> World" where
  "run_deferred env h err w =
     (let (e, w1) = cleanupTemporaryFiles env h w
      in if e \<noteq> None then
           (let err1 = (if err \<noteq> None then Some (MultiError [err, e]) else err);
                err2 = e
            in (err2, w1))
         else (err, w1))"

definition run :: "Env \<Rightarrow> Harvest \<Rightarrow> (error + Response) list \<Rightarrow> World
    \<Rightarrow> result \<times> (error + Response) list \<times> World" where
  "run env h script w =
     (case run_body env h script w of
        (Returned err, rest, w1) \<Rightarrow>
          (let (err', w2) = run_deferred env h err w1 in (Returned err', rest, w2))
      | (Pending, rest, w1) \<Rightarrow> (Pending, rest, w1))"

section \<open>Concrete inputs\<close>

text \<open>
  A harvest of a day-granularity endpoint, started on 2020-03-10, with the command
  line's defaults for the two limits.
\<close>

definition harvest0 :: Harvest where
  "harvest0 =
     \<lparr>BaseURL = ''http://example.org/oai'', Format = ''oai_dc'', Set = [], From = [], Until = [],
      MaxRequests = 1048576, DisableSelectiveHarvesting = False, CleanBeforeDecode = False,
      IgnoreHTTPErrors = False, MaxEmptyResponses = 3, SuppressFormatParameter = False,
      DailyInterval = False,
      Identify = \<lparr>Granularity = ''YYYY-MM-DD'', EarliestDatestamp = ''2020-01-15''\<rparr>,
      Started = Date 2020 3 10 12 0 0 0\<rparr>"

section \<open>The earliest date\<close>

text \<open>
  Claim C7. \<open>earliestDate\<close> reads the Identify record's earliest datestamp by
  granularity. For \<open>YYYY-MM-DD\<close>, a datestamp longer than 10 bytes is cut to its first 10
  bytes and parsed with the day layout. For \<open>YYYY-MM-DDThh:mm:ssZ\<close>, a datestamp of
  length at least 10 and below 20 is cut to 10 bytes and parsed with the day layout, and
  a datestamp of length 20 or more is parsed whole with the full layout. Every other
  granularity gives \<open>ErrInvalidEarliestDate\<close>.
\<close>

theorem earliestDate_by_granularity:
  fixes h :: Harvest
  defines "g \<equiv> Granularity (Identify h)" and "s \<equiv> EarliestDatestamp (Identify h)"
  shows "(g = ''YYYY-MM-DD'' \<and> 10 < length s \<longrightarrow>
            earliestDate h = time_Parse ''2006-01-02'' (take 10 s))
       \<and> (g = ''YYYY-MM-DDThh:mm:ssZ'' \<and> 10 \<le> length s \<and> length s < 20 \<longrightarrow>
            earliestDate h = time_Parse ''2006-01-02'' (take 10 s))
       \<and> (g = ''YYYY-MM-DDThh:mm:ssZ'' \<and> 20 \<le> length s \<longrightarrow>
            earliestDate h = time_Parse ''2006-01-02T15:04:05Z'' s)
       \<and> (g \<noteq> ''YYYY-MM-DD'' \<and> g \<noteq> ''YYYY-MM-DDThh:mm:ssZ'' \<longrightarrow>
            earliestDate h = Inl ErrInvalidEarliestDate)"
  unfolding g_def s_def earliestDate_def by simp

lemmas parse_defs =
  time_Parse_def parse_day_def parse_full_def parse_ymd_def parse_hm_def parse_sec_def
  getLongYear_def getnum_def skip_def isDigitAt_def isDigit_def digitVal_def digitsVal_def
  getFraction_def commaOrPeriod_def daysIn_def isLeap_def

theorem earliestDate_by_granularity_witness:
  "earliestDate (harvest0\<lparr>Identify :=
      \<lparr>Granularity = ''YYYY-MM-DD'', EarliestDatestamp = ''2020-01-15T10:30:00Z''\<rparr>\<rparr>)
     = Inr (Date 2020 1 15 0 0 0 0)
   \<and> earliestDate (harvest0\<lparr>Identify :=
      \<lparr>Granularity = ''YYYY-MM-DDThh:mm:ssZ'', EarliestDatestamp = ''2020-01-15T10:30''\<rparr>\<rparr>)
     = Inr (Date 2020 1 15 0 0 0 0)
   \<and> earliestDate (harvest0\<lparr>Identify :=
      \<lparr>Granularity = ''YYYY-MM-DDThh:mm:ssZ'', EarliestDatestamp = ''2020-01-15T10:30:00Z''\<rparr>\<rparr>)
     = Inr (Date 2020 1 15 10 30 0 0)
   \<and> earliestDate (harvest0\<lparr>Identify :=
      \<lparr>Granularity = ''YYYY-MM-DDThh:mm:ss'', EarliestDatestamp = ''2020-01-15T10:30:00Z''\<rparr>\<rparr>)
     = Inl ErrInvalidEarliestDate"
proof -
  let ?h1 = "harvest0\<lparr>Identify :=
      \<lparr>Granularity = ''YYYY-MM-DD'', EarliestDatestamp = ''2020-01-15T10:30:00Z''\<rparr>\<rparr>"
  let ?h2 = "harvest0\<lparr>Identify :=
      \<lparr>Granularity = ''YYYY-MM-DDThh:mm:ssZ'', EarliestDatestamp = ''2020-01-15T10:30''\<rparr>\<rparr>"
  let ?h3 = "harvest0\<lparr>Identify :=
      \<lparr>Granularity = ''YYYY-MM-DDThh:mm:ssZ'', EarliestDatestamp = ''2020-01-15T10:30:00Z''\<rparr>\<rparr>"
  let ?h4 = "harvest0\<lparr>Identify :=
      \<lparr>Granularity = ''YYYY-MM-DDThh:mm:ss'', EarliestDatestamp = ''2020-01-15T10:30:00Z''\<rparr>\<rparr>"
  have d: "time_Parse ''2006-01-02'' ''2020-01-15'' = Inr (Date 2020 1 15 0 0 0 0)"
    by (simp add: parse_defs)
  have f: "time_Parse ''2006-01-02T15:04:05Z'' ''2020-01-15T10:30:00Z'' = Inr (Date 2020 1 15 10 30 0 0)"
    by (simp add: parse_defs)
  have "earliestDate ?h1 = Inr (Date 2020 1 15 0 0 0 0)"
    using earliestDate_by_granularity [of ?h1] d by simp
  moreover have "earliestDate ?h2 = Inr (Date 2020 1 15 0 0 0 0)"
    using earliestDate_by_granularity [of ?h2] d by simp
  moreover have "earliestDate ?h3 = Inr (Date 2020 1 15 10 30 0 0)"
    using earliestDate_by_granularity [of ?h3] f by simp
  moreover have "earliestDate ?h4 = Inl ErrInvalidEarliestDate"
    using earliestDate_by_granularity [of ?h4] by simp
  ultimately show ?thesis by blast
qed

end
